theory Spec2Isabelle
  imports Complex_Main "HOL-Library.Sublist"
begin

section \<open>Python values\<close>

text \<open>
  A Python \<open>str\<close> is a sequence of Unicode code points; \<open>len\<close> counts code points and
  \<open>str.strip\<close> looks at code points. A string is therefore a list of code-point numbers,
  and \<open>lit\<close> turns an ASCII literal of the source into such a list.
\<close>

type_synonym codepoint = nat
type_synonym pystr = "codepoint list"

definition lit :: "string \<Rightarrow> pystr" where
  "lit s = map of_char s"

text \<open>
  A Python \<open>float\<close> as far as the code looks at it: the only operation on a float is the
  truth test, which is false exactly for zero (of either sign).
\<close>

datatype pyfloat = FloatNum real | FloatInf bool | FloatNaN

text \<open>
  The values \<open>json.loads\<close> produces (the result of \<open>request.get_json\<close> and of
  \<open>response.json()\<close>). \<open>JObj kvs\<close> stands for the \<open>dict\<close> whose lookup is
  \<open>map_of kvs\<close>; all its keys are strings.
\<close>

datatype json =
    JNull
  | JBool bool
  | JInt int
  | JFloat pyfloat
  | JStr pystr
  | JArr "json list"
  | JObj "(pystr \<times> json) list"

text \<open>Python's truth test (\<open>not x\<close> is its negation).\<close>

fun truthy :: "json \<Rightarrow> bool" where
  "truthy JNull = False"
| "truthy (JBool b) = b"
| "truthy (JInt i) = (i \<noteq> 0)"
| "truthy (JFloat (FloatNum x)) = (x \<noteq> 0)"
| "truthy (JFloat (FloatInf s)) = True"
| "truthy (JFloat FloatNaN) = True"
| "truthy (JStr s) = (s \<noteq> [])"
| "truthy (JArr xs) = (xs \<noteq> [])"
| "truthy (JObj kvs) = (kvs \<noteq> [])"

text \<open>\<open>type(x).__name__\<close>, as it appears in the interpreter's error messages.\<close>

fun type_name :: "json \<Rightarrow> string" where
  "type_name JNull = ''NoneType''"
| "type_name (JBool b) = ''bool''"
| "type_name (JInt i) = ''int''"
| "type_name (JFloat f) = ''float''"
| "type_name (JStr s) = ''str''"
| "type_name (JArr xs) = ''list''"
| "type_name (JObj kvs) = ''dict''"

section \<open>tools/validation\_tools.py\<close>

record validation_result =
  valid :: bool
  reason :: pystr

definition validate_address :: "pystr \<Rightarrow> validation_result" where
  "validate_address address =
     (if address = [] then
        \<lparr>valid = False, reason = lit ''Address cannot be empty.''\<rparr>
      else if length address < 10 then
        \<lparr>valid = False, reason = lit ''Address is too short to be valid.''\<rparr>
      else
        \<lparr>valid = True, reason = lit ''Address format appears valid.''\<rparr>)"

section \<open>Exceptions and formatted strings\<close>

text \<open>
  The exceptions the code can meet, by the class that decides which handler takes them.
  \<open>Timeout\<close> is \<open>requests.exceptions.Timeout\<close>; \<open>RequestException\<close> is any other
  \<open>requests.exceptions.RequestException\<close>; both carry their message. \<open>KeyError\<close> carries
  the missing key, \<open>IndexError\<close> and \<open>TypeError\<close> the type name of the object misused,
  \<open>AttributeError\<close> the type name and the attribute. \<open>OtherException\<close> is any other
  subclass of \<open>Exception\<close> raised by a library, with its message.
\<close>

datatype exn =
    Timeout pystr
  | RequestException pystr
  | KeyError json
  | IndexError string
  | TypeError string
  | AttributeError string string
  | OtherException pystr

text \<open>
  An f-string, or any string built from \<open>str(x)\<close>, is kept as the list of its pieces:
  literal text, \<open>str\<close> of a value, \<open>str\<close> of an exception. How the interpreter prints a
  value or an exception is not fixed here.
\<close>

datatype frag = Text pystr | StrOf json | StrOfExn exn

type_synonym fstr = "frag list"

text \<open>Sequencing of steps that may raise: the first exception ends the block.\<close>

definition try_bind :: "exn + 'a \<Rightarrow> ('a \<Rightarrow> exn + 'b) \<Rightarrow> exn + 'b" where
  "try_bind m f = (case m of Inl e \<Rightarrow> Inl e | Inr v \<Rightarrow> f v)"

section \<open>main.py\<close>

text \<open>
  \<open>request.get_json(silent=True)\<close> yields \<open>None\<close> when the body is absent, is not JSON or
  does not parse, and the parsed value otherwise.
\<close>

datatype request_body = NoJson | Json json

fun get_json_silent :: "request_body \<Rightarrow> json" where
  "get_json_silent NoJson = JNull"
| "get_json_silent (Json j) = j"

text \<open>\<open>data.get(key)\<close>: only a \<open>dict\<close> has the method.\<close>

fun py_get :: "json \<Rightarrow> pystr \<Rightarrow> exn + json" where
  "py_get (JObj kvs) k = Inr (case map_of kvs k of None \<Rightarrow> JNull | Some v \<Rightarrow> v)"
| "py_get j k = Inl (AttributeError (type_name j) ''get'')"

text \<open>
  An attribute of an object as \<open>hasattr\<close> and the access see it: missing (\<open>hasattr\<close> is
  false), present with the value \<open>None\<close>, or present with a value of the expected type.
\<close>

datatype 'a attr = Missing | IsNone | Has 'a

text \<open>
  The model's response. A part is looked at through its attributes \<open>text\<close> and
  \<open>function_call\<close>; of a function call the code reads the \<open>name\<close>.
\<close>

record function_call =
  name :: pystr

record part =
  part_text :: "pystr attr"
  part_function_call :: "function_call attr"

record content =
  parts :: "part list"

record candidate =
  candidate_content :: "content option"

record response =
  candidates :: "candidate list"

datatype reply_body = ErrorBody fstr | DealMemo pystr

record http_reply =
  status :: nat
  body :: reply_body

definition tool_call_warning :: "pystr \<Rightarrow> pystr" where
  "tool_call_warning n =
     lit ''\<newline>\<newline>**[Warning: Agent attempted to call a tool in final response unexpectedly: ''
     @ n @ lit '']**\<newline>\<newline>''"

text \<open>
  The loop over \<open>response.candidates[0].content.parts\<close>, with the memo so far. Adding a
  text that is \<open>None\<close> to the memo raises \<open>TypeError\<close>; reading the \<open>name\<close> of a
  function call that is \<open>None\<close> raises \<open>AttributeError\<close>; a part with neither attribute
  is passed over.
\<close>

fun collect_memo :: "pystr \<Rightarrow> part list \<Rightarrow> exn + pystr" where
  "collect_memo memo [] = Inr memo"
| "collect_memo memo (p # ps) =
     (case part_text p of
        Has t \<Rightarrow> collect_memo (memo @ t) ps
      | IsNone \<Rightarrow> Inl (TypeError ''NoneType'')
      | Missing \<Rightarrow>
          (case part_function_call p of
             Has fc \<Rightarrow> collect_memo (memo @ tool_call_warning (name fc)) ps
           | IsNone \<Rightarrow> Inl (AttributeError ''NoneType'' ''name'')
           | Missing \<Rightarrow> collect_memo memo ps))"

text \<open>
  The parts the loop runs over: those of the first candidate's content, and none when
  the guard \<open>response.candidates and response.candidates[0].content\<close> fails.
\<close>

definition response_parts :: "response \<Rightarrow> part list" where
  "response_parts r =
     (case candidates r of
        [] \<Rightarrow> []
      | c # _ \<Rightarrow>
          (case candidate_content c of
             None \<Rightarrow> []
           | Some ct \<Rightarrow> parts ct))"

definition generated_memo :: "response \<Rightarrow> exn + pystr" where
  "generated_memo r = collect_memo [] (response_parts r)"

text \<open>
  \<open>str.isspace\<close> on one code point (the interpreter's whitespace table) and
  \<open>str.strip()\<close>, which drops the whitespace at both ends.
\<close>

definition isspace :: "codepoint \<Rightarrow> bool" where
  "isspace c =
     ((9 \<le> c \<and> c \<le> 13) \<or> (28 \<le> c \<and> c \<le> 32) \<or> c = 133 \<or> c = 160 \<or> c = 5760
      \<or> (8192 \<le> c \<and> c \<le> 8202) \<or> c = 8232 \<or> c = 8233 \<or> c = 8239 \<or> c = 8287
      \<or> c = 12288)"

definition strip :: "pystr \<Rightarrow> pystr" where
  "strip s = rev (dropWhile isspace (rev (dropWhile isspace s)))"

definition reply :: "nat \<Rightarrow> reply_body \<Rightarrow> http_reply" where
  "reply code b = \<lparr>status = code, body = b\<rparr>"

text \<open>
  The body of the \<open>try\<close> block. \<open>generate_content\<close> is the call of the hosted model on the
  prompt; the prompt is the fixed template with the address formatted in, so the call is
  a function of the address value, and it returns a response or raises.
\<close>

definition analyze_property_try ::
    "(json \<Rightarrow> exn + response) \<Rightarrow> request_body \<Rightarrow> exn + http_reply" where
  "analyze_property_try generate_content req =
     (let data = get_json_silent req in
      if \<not> truthy data then
        Inr (reply 400 (ErrorBody [Text (lit ''Invalid JSON payload or empty request body.'')]))
      else
        try_bind (py_get data (lit ''address'')) (\<lambda>property_address.
        if \<not> truthy property_address then
          Inr (reply 400 (ErrorBody [Text (lit ''Missing 'address' in request payload.'')]))
        else
          try_bind (generate_content property_address) (\<lambda>response.
          try_bind (generated_memo response) (\<lambda>memo.
          if strip memo = [] then
            Inr (reply 500 (ErrorBody [Text (lit
              ''Agent failed to generate a comprehensive memo. Gemini's output was empty.'')]))
          else
            Inr (reply 200 (DealMemo memo))))))"

text \<open>The endpoint: the \<open>try\<close> block under its \<open>except Exception\<close> handler.\<close>

definition analyze_property ::
    "(json \<Rightarrow> exn + response) \<Rightarrow> request_body \<Rightarrow> http_reply" where
  "analyze_property generate_content req =
     (case analyze_property_try generate_content req of
        Inr r \<Rightarrow> r
      | Inl e \<Rightarrow> reply 500 (ErrorBody [StrOfExn e]))"

fun is_dict :: "json \<Rightarrow> bool" where
  "is_dict (JObj kvs) = True"
| "is_dict j = False"

fun is_str :: "json \<Rightarrow> bool" where
  "is_str (JStr s) = True"
| "is_str j = False"

text \<open>
  The wording of the specification, for comparison with \<open>generated_memo\<close>: the
  concatenation of the text segments of the response, and nothing else.
\<close>

fun spec_text_segments :: "part list \<Rightarrow> pystr" where
  "spec_text_segments [] = []"
| "spec_text_segments (p # ps) =
     (case part_text p of
        Has t \<Rightarrow> t @ spec_text_segments ps
      | IsNone \<Rightarrow> spec_text_segments ps
      | Missing \<Rightarrow> spec_text_segments ps)"

definition spec_concatenated_text :: "response \<Rightarrow> pystr" where
  "spec_concatenated_text r = spec_text_segments (response_parts r)"

text \<open>
  The memo in words, piece by piece: what a part contributes is its text if it has one,
  the warning marker that names the tool if it has no text and carries a function call,
  and nothing otherwise.
\<close>

definition spec_memo_piece :: "part \<Rightarrow> pystr" where
  "spec_memo_piece p =
     (case part_text p of
        Has t \<Rightarrow> t
      | IsNone \<Rightarrow> []
      | Missing \<Rightarrow>
          (case part_function_call p of
             Has fc \<Rightarrow>
               lit ''\<newline>\<newline>**[Warning: Agent attempted to call a tool in final response unexpectedly: ''
               @ name fc @ lit '']**\<newline>\<newline>''
           | IsNone \<Rightarrow> []
           | Missing \<Rightarrow> []))"

text \<open>
  A part the loop can read: its text is not \<open>None\<close>, and if it has no text its function
  call is not \<open>None\<close>.
\<close>

definition readable_part :: "part \<Rightarrow> bool" where
  "readable_part p =
     (case part_text p of
        Has t \<Rightarrow> True
      | IsNone \<Rightarrow> False
      | Missing \<Rightarrow> part_function_call p \<noteq> IsNone)"

section \<open>tools/bigquery\_tools.py\<close>

text \<open>
  The module-level default: an unset or empty \<open>BIGQUERY_PROJECT_ID\<close> becomes the
  fixed project.
\<close>

definition bigquery_project_id :: "pystr option \<Rightarrow> pystr" where
  "bigquery_project_id env =
     (case env of
        None \<Rightarrow> lit ''ccibt-hack25ww7-729''
      | Some v \<Rightarrow> if v = [] then lit ''ccibt-hack25ww7-729'' else v)"

text \<open>
  The warehouse is outside the program: \<open>client.query(query)\<close> followed by the iteration
  over the job either yields the rows or raises. A client is that outcome as a function
  of the query text; the rows are whatever the warehouse sends, of any type. Each tool
  returns its payload together with the list of the queries it issued.
\<close>

type_synonym 'row bq_client = "fstr \<Rightarrow> exn + 'row list"

definition apostrophe :: pystr where
  "apostrophe = [39]"

definition demographics_query :: "pystr \<Rightarrow> fstr" where
  "demographics_query zip_code =
     [Text (lit ''\<newline>    SELECT\<newline>        sum(total_pop) as total_population_2020,\<newline>        avg(median_income) as median_household_income_2020,\<newline>        sum(households) as total_households_2020,\<newline>        avg(median_rent) as median_rent_2020\<newline>    FROM\<newline>        `bigquery-public-data.census_bureau_acs.zip_code_2020_5yr`\<newline>    WHERE\<newline>        geo_id = ''
        @ apostrophe @ zip_code @ apostrophe
        @ lit ''\<newline>    GROUP BY\<newline>        geo_id\<newline>    '')]"

datatype 'row demographics_payload =
    Demographics 'row
  | DemographicsNoData pystr
  | DemographicsError fstr

definition get_demographics_by_zip ::
    "'row bq_client \<Rightarrow> pystr \<Rightarrow> 'row demographics_payload \<times> fstr list" where
  "get_demographics_by_zip client_query zip_code =
     (if zip_code = [] then
        (DemographicsError [Text (lit ''Zip code is required for demographic query.'')], [])
      else
        let query = demographics_query zip_code in
        (case client_query query of
           Inr results \<Rightarrow>
             (case results of
                r # _ \<Rightarrow> Demographics r
              | [] \<Rightarrow> DemographicsNoData (lit ''No data found for this zip code in public datasets.''))
         | Inl e \<Rightarrow>
             DemographicsError
               [Text (lit ''BigQuery demographic query failed: ''), StrOfExn e, Text (lit ''.'')],
         [query]))"

definition comparables_query ::
    "pystr \<Rightarrow> pystr \<Rightarrow> pystr \<Rightarrow> pystr option \<Rightarrow> pyfloat option \<Rightarrow> pyfloat option \<Rightarrow> int \<Rightarrow> fstr"
  where
  "comparables_query project city state property_type min_sqft max_price limit =
     [Text (lit ''\<newline>    SELECT\<newline>        property_type, price, beds, baths, sqft, address, city, state, zip_code, year_built\<newline>    FROM\<newline>        `''
        @ project @ lit ''.cre_data.commercial_comparables`\<newline>    WHERE\<newline>        LOWER(city) = LOWER(''
        @ apostrophe @ city @ apostrophe @ lit '') AND LOWER(state) = LOWER(''
        @ apostrophe @ state @ apostrophe @ lit '')\<newline>    '')]
     @ (case property_type of
          None \<Rightarrow> []
        | Some t \<Rightarrow>
            if t = [] then []
            else [Text (lit '' AND LOWER(property_type) = LOWER('' @ apostrophe @ t @ apostrophe
                        @ lit '')'')])
     @ (case min_sqft of None \<Rightarrow> [] | Some x \<Rightarrow> [Text (lit '' AND sqft >= ''), StrOf (JFloat x)])
     @ (case max_price of None \<Rightarrow> [] | Some x \<Rightarrow> [Text (lit '' AND price <= ''), StrOf (JFloat x)])
     @ [Text (lit '' ORDER BY price DESC LIMIT ''), StrOf (JInt limit)]"

datatype 'row comparables_payload =
    ComparableProperties "'row list"
  | ComparablesNoData pystr
  | ComparablesError fstr

definition find_comparable_properties_in_bq ::
    "pystr \<Rightarrow> 'row bq_client \<Rightarrow> pystr \<Rightarrow> pystr \<Rightarrow> pystr option \<Rightarrow> pyfloat option \<Rightarrow>
     pyfloat option \<Rightarrow> int \<Rightarrow> 'row comparables_payload \<times> fstr list" where
  "find_comparable_properties_in_bq project client_query city state property_type min_sqft
       max_price limit =
     (if city = [] \<or> state = [] then
        (ComparablesError [Text (lit ''City and State are required to find comparables.'')], [])
      else
        let query = comparables_query project city state property_type min_sqft max_price limit
        in
        (case client_query query of
           Inr results \<Rightarrow>
             if results \<noteq> [] then ComparableProperties results
             else ComparablesNoData
                    (lit ''No comparable properties found for the given criteria.'')
         | Inl e \<Rightarrow>
             ComparablesError
               [Text (lit ''BigQuery comparables query failed: ''), StrOfExn e, Text (lit ''.'')],
         [query]))"

section \<open>tools/maps\_tools.py\<close>

text \<open>
  The operations of the interpreter the geocoding code applies to the decoded reply,
  each with the exception it raises on a value of the wrong shape: \<open>x[key]\<close> with a
  string key, \<open>x[i]\<close> with an index, \<open>s in x\<close> with a string \<open>s\<close>, and the iteration of
  a \<open>for\<close> loop.
\<close>

fun subscript_key :: "json \<Rightarrow> pystr \<Rightarrow> exn + json" where
  "subscript_key (JObj kvs) k =
     (case map_of kvs k of None \<Rightarrow> Inl (KeyError (JStr k)) | Some v \<Rightarrow> Inr v)"
| "subscript_key j k = Inl (TypeError (type_name j))"

fun subscript_index :: "json \<Rightarrow> nat \<Rightarrow> exn + json" where
  "subscript_index (JArr xs) i =
     (if i < length xs then Inr (xs ! i) else Inl (IndexError ''list''))"
| "subscript_index (JStr s) i =
     (if i < length s then Inr (JStr [s ! i]) else Inl (IndexError ''str''))"
| "subscript_index (JObj kvs) i = Inl (KeyError (JInt (int i)))"
| "subscript_index j i = Inl (TypeError (type_name j))"

fun py_in :: "pystr \<Rightarrow> json \<Rightarrow> exn + bool" where
  "py_in s (JArr xs) = Inr (JStr s \<in> set xs)"
| "py_in s (JStr t) = Inr (sublist s t)"
| "py_in s (JObj kvs) = Inr (s \<in> set (map fst kvs))"
| "py_in s j = Inl (TypeError (type_name j))"

fun py_iter :: "json \<Rightarrow> exn + json list" where
  "py_iter (JArr xs) = Inr xs"
| "py_iter (JStr s) = Inr (map (\<lambda>c. JStr [c]) s)"
| "py_iter (JObj kvs) = Inr (map JStr (remdups (map fst kvs)))"
| "py_iter j = Inl (TypeError (type_name j))"

text \<open>
  One round of the loop over the address components: the three \<open>if\<close> statements in
  their order, on the values of \<open>city\<close>, \<open>state\<close> and \<open>zip_code\<close> so far.
\<close>

definition component_step :: "json \<times> json \<times> json \<Rightarrow> json \<Rightarrow> exn + json \<times> json \<times> json" where
  "component_step acc component =
     (case acc of (city, state, zip_code) \<Rightarrow>
        try_bind (subscript_key component (lit ''types'')) (\<lambda>types1.
        try_bind (py_in (lit ''locality'') types1) (\<lambda>is_locality.
        try_bind (if is_locality then subscript_key component (lit ''long_name'')
                  else Inr city) (\<lambda>city.
        try_bind (subscript_key component (lit ''types'')) (\<lambda>types2.
        try_bind (py_in (lit ''administrative_area_level_1'') types2) (\<lambda>is_area.
        try_bind (if is_area then subscript_key component (lit ''short_name'')
                  else Inr state) (\<lambda>state.
        try_bind (subscript_key component (lit ''types'')) (\<lambda>types3.
        try_bind (py_in (lit ''postal_code'') types3) (\<lambda>is_postal.
        try_bind (if is_postal then subscript_key component (lit ''long_name'')
                  else Inr zip_code) (\<lambda>zip_code.
        Inr (city, state, zip_code)))))))))))"

fun scan_components :: "json \<times> json \<times> json \<Rightarrow> json list \<Rightarrow> exn + json \<times> json \<times> json" where
  "scan_components acc [] = Inr acc"
| "scan_components acc (component # rest) =
     try_bind (component_step acc component) (\<lambda>acc'. scan_components acc' rest)"

text \<open>
  The reply of \<open>requests.get\<close>, as far as the code uses it: what \<open>raise_for_status()\<close>
  raises, if anything, and what \<open>json()\<close> returns or raises.
\<close>

record requests_response =
  raise_for_status :: "exn option"
  json_result :: "exn + json"

record geo_result =
  latitude :: json
  longitude :: json
  place_id :: json
  formatted_address :: json
  city :: json
  state :: json
  zip_code :: json

datatype geo_payload = GeoResult geo_result | GeoError fstr

definition first_result :: "json \<Rightarrow> exn + json" where
  "first_result data =
     try_bind (subscript_key data (lit ''results'')) (\<lambda>results. subscript_index results 0)"

definition geocode_url :: "pystr \<Rightarrow> pystr \<Rightarrow> pystr" where
  "geocode_url address key =
     lit ''https://maps.googleapis.com/maps/api/geocode/json?address='' @ address
     @ lit ''&key='' @ key"

text \<open>
  The body of the \<open>try\<close> block. \<open>requests_get\<close> is \<open>requests.get(url, timeout=10)\<close>: the
  reply, or the exception of the transport.
\<close>

definition geocode_try ::
    "(pystr \<Rightarrow> exn + requests_response) \<Rightarrow> pystr \<Rightarrow> pystr \<Rightarrow> exn + geo_payload" where
  "geocode_try requests_get url address =
     try_bind (requests_get url) (\<lambda>response.
     try_bind (case raise_for_status response of Some e \<Rightarrow> Inl e | None \<Rightarrow> Inr ()) (\<lambda>u.
     try_bind (json_result response) (\<lambda>data.
     try_bind (subscript_key data (lit ''status'')) (\<lambda>status_value.
     try_bind (if status_value = JStr (lit ''OK'')
               then try_bind (subscript_key data (lit ''results'')) (\<lambda>results. Inr (truthy results))
               else Inr False) (\<lambda>ok.
     if ok then
       try_bind (first_result data) (\<lambda>r1.
       try_bind (subscript_key r1 (lit ''geometry'')) (\<lambda>geometry.
       try_bind (subscript_key geometry (lit ''location'')) (\<lambda>location.
       try_bind (first_result data) (\<lambda>r2.
       try_bind (subscript_key r2 (lit ''place_id'')) (\<lambda>place.
       try_bind (first_result data) (\<lambda>r3.
       try_bind (subscript_key r3 (lit ''formatted_address'')) (\<lambda>formatted.
       try_bind (first_result data) (\<lambda>r4.
       try_bind (subscript_key r4 (lit ''address_components'')) (\<lambda>components.
       try_bind (py_iter components) (\<lambda>component_list.
       try_bind (scan_components (JNull, JNull, JNull) component_list) (\<lambda>found.
       try_bind (subscript_key location (lit ''lat'')) (\<lambda>lat.
       try_bind (subscript_key location (lit ''lng'')) (\<lambda>lng.
       Inr (GeoResult
              \<lparr>latitude = lat, longitude = lng, place_id = place,
               formatted_address = formatted, city = fst found, state = fst (snd found),
               zip_code = snd (snd found)\<rparr>))))))))))))))
     else
       try_bind (py_get data (lit ''status'')) (\<lambda>shown.
       Inr (GeoError
              [Text (lit ''Could not geocode address: ''), Text address,
               Text (lit ''. Status: ''), StrOf shown, Text (lit ''.'')])))))))"

text \<open>The three \<open>except\<close> clauses, in their order.\<close>

fun geocode_except :: "pystr \<Rightarrow> exn \<Rightarrow> geo_payload" where
  "geocode_except address (Timeout m) =
     GeoError [Text (lit ''Geocoding API request timed out for address: ''), Text address,
               Text (lit ''.'')]"
| "geocode_except address (RequestException m) =
     GeoError [Text (lit ''Geocoding API request failed: ''), StrOfExn (RequestException m),
               Text (lit ''.'')]"
| "geocode_except address e =
     GeoError [Text (lit ''An unexpected error occurred during geocoding: ''), StrOfExn e,
               Text (lit ''.'')]"

text \<open>
  The tool. Its result is in \<open>exn + geo_payload\<close>: \<open>Inl\<close> would be an exception that
  reaches the caller, \<open>Inr\<close> is a returned payload. \<open>MAPS_API_KEY\<close> is the value of the
  environment variable, \<open>None\<close> when it is unset.
\<close>

definition get_geocode_and_place_id ::
    "pystr option \<Rightarrow> (pystr \<Rightarrow> exn + requests_response) \<Rightarrow> pystr \<Rightarrow> exn + geo_payload" where
  "get_geocode_and_place_id MAPS_API_KEY requests_get address =
     (case MAPS_API_KEY of
        None \<Rightarrow> Inr (GeoError [Text (lit ''MAPS_API_KEY environment variable not set.'')])
      | Some key \<Rightarrow>
          if key = [] then
            Inr (GeoError [Text (lit ''MAPS_API_KEY environment variable not set.'')])
          else
            (case geocode_try requests_get (geocode_url address key) address of
               Inr payload \<Rightarrow> Inr payload
             | Inl e \<Rightarrow> Inr (geocode_except address e)))"

text \<open>
  Whether a component carries a type tag: the test \<open>tag in component['types']\<close> of the
  loop comes out true.
\<close>

definition has_type :: "pystr \<Rightarrow> json \<Rightarrow> bool" where
  "has_type tag component =
     (try_bind (subscript_key component (lit ''types'')) (py_in tag) = Inr True)"

text \<open>The component list the loop runs over, read from the decoded reply.\<close>

definition address_components :: "json \<Rightarrow> exn + json list" where
  "address_components data =
     try_bind (first_result data) (\<lambda>r.
     try_bind (subscript_key r (lit ''address_components'')) py_iter)"

section \<open>Example environments and inputs\<close>

text \<open>A hosted model that always returns the given response, and one that always raises.\<close>

definition model_returning :: "response \<Rightarrow> json \<Rightarrow> exn + response" where
  "model_returning r a = Inr r"

definition model_raising :: "exn \<Rightarrow> json \<Rightarrow> exn + response" where
  "model_raising e a = Inl e"

definition text_part :: "pystr \<Rightarrow> part" where
  "text_part t = \<lparr>part_text = Has t, part_function_call = Missing\<rparr>"

definition tool_call_part :: "pystr \<Rightarrow> part" where
  "tool_call_part n = \<lparr>part_text = Missing, part_function_call = Has \<lparr>name = n\<rparr>\<rparr>"

text \<open>A part without text whose function call is \<open>None\<close>.\<close>

definition empty_call_part :: part where
  "empty_call_part = \<lparr>part_text = Missing, part_function_call = IsNone\<rparr>"

definition response_of_parts :: "part list \<Rightarrow> response" where
  "response_of_parts ps = \<lparr>candidates = [\<lparr>candidate_content = Some \<lparr>parts = ps\<rparr>\<rparr>]\<rparr>"

definition example_request :: request_body where
  "example_request =
     Json (JObj [(lit ''address'', JStr (lit ''1 Infinite Loop, Cupertino, CA 95014''))])"

text \<open>A transport that always raises, one that always delivers the given reply.\<close>

definition requests_get_raising :: "exn \<Rightarrow> pystr \<Rightarrow> exn + requests_response" where
  "requests_get_raising e url = Inl e"

definition requests_get_returning :: "requests_response \<Rightarrow> pystr \<Rightarrow> exn + requests_response" where
  "requests_get_returning r url = Inr r"

definition reply_with_json :: "json \<Rightarrow> requests_response" where
  "reply_with_json data = \<lparr>raise_for_status = None, json_result = Inr data\<rparr>"

definition example_component :: "string \<Rightarrow> string \<Rightarrow> string list \<Rightarrow> json" where
  "example_component long short tags =
     JObj [(lit ''long_name'', JStr (lit long)), (lit ''short_name'', JStr (lit short)),
           (lit ''types'', JArr (map (\<lambda>t. JStr (lit t)) tags))]"

definition example_components :: "json list" where
  "example_components =
     [example_component ''Springfield'' ''Springfield'' [''locality'', ''political''],
      example_component ''Cupertino'' ''Cupertino'' [''locality'', ''political''],
      example_component ''California'' ''CA'' [''administrative_area_level_1'', ''political''],
      example_component ''95014'' ''95014'' [''postal_code'']]"

definition example_geocoder_data :: json where
  "example_geocoder_data =
     JObj [(lit ''status'', JStr (lit ''OK'')),
           (lit ''results'',
            JArr [JObj [(lit ''geometry'',
                         JObj [(lit ''location'',
                                JObj [(lit ''lat'', JInt 37), (lit ''lng'', JInt (- 122))])]),
                        (lit ''place_id'', JStr (lit ''ChIJ'')),
                        (lit ''formatted_address'',
                         JStr (lit ''1 Infinite Loop, Cupertino, CA 95014, USA'')),
                        (lit ''address_components'', JArr example_components)]])]"

definition example_geo_result :: geo_result where
  "example_geo_result =
     \<lparr>latitude = JInt 37, longitude = JInt (- 122), place_id = JStr (lit ''ChIJ''),
      formatted_address = JStr (lit ''1 Infinite Loop, Cupertino, CA 95014, USA''),
      city = JStr (lit ''Cupertino''), state = JStr (lit ''CA''),
      zip_code = JStr (lit ''95014'')\<rparr>"

text \<open>A warehouse that answers every query with the given rows, and one that always raises.\<close>

definition client_returning :: "'row list \<Rightarrow> 'row bq_client" where
  "client_returning rows q = Inr rows"

definition client_raising :: "exn \<Rightarrow> 'row bq_client" where
  "client_raising e q = Inl e"

section \<open>Properties of validate\_address\<close>

lemma validate_address_reason_nonempty: "reason (validate_address a) \<noteq> []"
  by (simp add: validate_address_def lit_def)

lemma validate_address_valid_iff: "valid (validate_address a) = (10 \<le> length a)"
  by (auto simp: validate_address_def)

text \<open>
  Claim C2. For every address string, \<open>validate_address\<close> returns \<open>valid = False\<close>
  together with a non-empty reason exactly when the address is empty or has fewer than
  10 characters, and returns \<open>valid = True\<close> exactly when the address has 10 characters
  or more, whatever they are and however many.
\<close>

theorem validate_address_threshold:
  "((\<not> valid (validate_address a) \<and> reason (validate_address a) \<noteq> [])
      = (a = [] \<or> length a < 10))
   \<and> (valid (validate_address a) = (10 \<le> length a))"
  using validate_address_reason_nonempty [of a] validate_address_valid_iff [of a]
  by auto

section \<open>Properties of the endpoint\<close>

lemma strip_empty_iff: "(strip s = []) = (\<forall>c\<in>set s. isspace c)"
proof
  assume "strip s = []"
  then have all: "\<forall>c\<in>set (dropWhile isspace s). isspace c"
    by (simp add: strip_def)
  have "dropWhile isspace s = []"
  proof (cases "dropWhile isspace s")
    case Nil
    then show ?thesis .
  next
    case (Cons x xs)
    then have "\<not> isspace x"
      using hd_dropWhile [of isspace s] by simp
    moreover have "isspace x"
      using all Cons by simp
    ultimately show ?thesis by simp
  qed
  then show "\<forall>c\<in>set s. isspace c" by simp
next
  assume "\<forall>c\<in>set s. isspace c"
  then have "dropWhile isspace s = []" by simp
  then show "strip s = []" by (simp add: strip_def del: dropWhile_eq_Nil_conv)
qed

text \<open>
  Claim C1, as amended. For a POST request whose body is the JSON object \<open>{}\<close>, the
  endpoint responds 400 with the message "Invalid JSON payload or empty request body.":
  the empty object fails the truth test \<open>if not data\<close>, which comes before the lookup of
  the address. This holds whatever the hosted model would do.
\<close>

theorem analyze_property_empty_object:
  "analyze_property generate_content (Json (JObj [])) =
     reply 400 (ErrorBody [Text (lit ''Invalid JSON payload or empty request body.'')])"
  by (simp add: analyze_property_def analyze_property_try_def)

text \<open>
  The claim as it was written fails: on the body \<open>{}\<close> the reply is the invalid-JSON
  message and not the missing-address message.
\<close>

theorem empty_object_not_missing_address:
  "analyze_property (model_raising (OtherException [])) (Json (JObj [])) =
     reply 400 (ErrorBody [Text (lit ''Invalid JSON payload or empty request body.'')])
   \<and> analyze_property (model_raising (OtherException [])) (Json (JObj [])) \<noteq>
     reply 400 (ErrorBody [Text (lit ''Missing 'address' in request payload.'')])"
  by (simp add: analyze_property_def analyze_property_try_def reply_def lit_def)

lemma collect_memo_readable:
  "\<forall>p\<in>set ps. readable_part p \<Longrightarrow>
   collect_memo memo ps = Inr (memo @ concat (map spec_memo_piece ps))"
  by (induction ps arbitrary: memo)
    (auto simp: readable_part_def spec_memo_piece_def tool_call_warning_def split: attr.splits)

lemma collect_memo_unreadable:
  "\<forall>p\<in>set before. readable_part p \<Longrightarrow> \<not> readable_part bad \<Longrightarrow>
   collect_memo memo (before @ bad # after)
     = Inl (if part_text bad = IsNone then TypeError ''NoneType''
            else AttributeError ''NoneType'' ''name'')"
  by (induction before arbitrary: memo) (auto simp: readable_part_def split: attr.splits)

lemma spec_memo_pieces_text_only:
  "\<forall>p\<in>set ps. \<exists>t. part_text p = Has t \<Longrightarrow>
   concat (map spec_memo_piece ps) = spec_text_segments ps"
  by (induction ps) (auto simp: spec_memo_piece_def)

lemma analyze_property_after_model:
  assumes "truthy (get_json_silent req)"
    and "py_get (get_json_silent req) (lit ''address'') = Inr a"
    and "truthy a"
    and "generate_content a = Inr r"
  shows "analyze_property generate_content req =
           (case collect_memo [] (response_parts r) of
              Inl e \<Rightarrow> reply 500 (ErrorBody [StrOfExn e])
            | Inr memo \<Rightarrow>
                if \<forall>ch\<in>set memo. isspace ch
                then reply 500 (ErrorBody [Text (lit
                       ''Agent failed to generate a comprehensive memo. Gemini's output was empty.'')])
                else reply 200 (DealMemo memo))"
  using assms
  by (simp add: analyze_property_def analyze_property_try_def try_bind_def Let_def
      generated_memo_def strip_empty_iff split: sum.splits)

text \<open>
  Claim C7, as amended. For a request that carries an address and a model that returns a
  response: if the response has no candidate, or its first candidate has no content,
  the reply is 500 with the fixed message. Otherwise, if every part can be read, the
  endpoint decides on the memo, which is the concatenation, in the order of the parts,
  of the text of every part that has text and of the warning marker naming the tool for
  every part without text that carries a function call: if the memo is empty or all
  whitespace the reply is 500 with the fixed message, otherwise it is 200 with the memo
  as \<open>deal_memo\<close>. If a part cannot be read (its text is \<open>None\<close>, or it has no text and
  its function call is \<open>None\<close>), the first such part raises and the reply is 500 with
  the message of that exception. When every part has text, the memo is exactly the
  concatenated text segments.
\<close>

theorem analyze_property_memo_outcome:
  assumes "truthy (get_json_silent req)"
    and "py_get (get_json_silent req) (lit ''address'') = Inr a"
    and "truthy a"
    and "generate_content a = Inr r"
  shows "(candidates r = [] \<or> (candidates r = c # cs \<and> candidate_content c = None) \<longrightarrow>
            analyze_property generate_content req
              = reply 500 (ErrorBody [Text (lit
                  ''Agent failed to generate a comprehensive memo. Gemini's output was empty.'')]))
       \<and> (candidates r = c # cs \<and> candidate_content c = Some ct
            \<and> (\<forall>p\<in>set (parts ct). readable_part p) \<longrightarrow>
            analyze_property generate_content req
              = (if \<forall>ch\<in>set (concat (map spec_memo_piece (parts ct))). isspace ch
                 then reply 500 (ErrorBody [Text (lit
                   ''Agent failed to generate a comprehensive memo. Gemini's output was empty.'')])
                 else reply 200 (DealMemo (concat (map spec_memo_piece (parts ct))))))
       \<and> (candidates r = c # cs \<and> candidate_content c = Some ct
            \<and> parts ct = before @ bad # after
            \<and> (\<forall>p\<in>set before. readable_part p) \<and> \<not> readable_part bad \<longrightarrow>
            analyze_property generate_content req
              = reply 500 (ErrorBody [StrOfExn
                  (if part_text bad = IsNone then TypeError ''NoneType''
                   else AttributeError ''NoneType'' ''name'')]))
       \<and> ((\<forall>p\<in>set ps. \<exists>t. part_text p = Has t) \<longrightarrow>
            concat (map spec_memo_piece ps) = spec_text_segments ps)"
proof -
  note outcome = analyze_property_after_model
      [where req = req and a = a and generate_content = generate_content and r = r, OF assms]
  show ?thesis
  proof (intro conjI impI)
  assume "candidates r = [] \<or> (candidates r = c # cs \<and> candidate_content c = None)"
  then have "response_parts r = []"
    by (auto simp: response_parts_def)
  then show "analyze_property generate_content req
      = reply 500 (ErrorBody [Text (lit
          ''Agent failed to generate a comprehensive memo. Gemini's output was empty.'')])"
    by (simp add: outcome)
next
  assume h: "candidates r = c # cs \<and> candidate_content c = Some ct
            \<and> (\<forall>p\<in>set (parts ct). readable_part p)"
  then have "response_parts r = parts ct"
    by (simp add: response_parts_def)
  with h have "collect_memo [] (response_parts r)
                 = Inr (concat (map spec_memo_piece (parts ct)))"
    by (simp add: collect_memo_readable)
  then show "analyze_property generate_content req
      = (if \<forall>ch\<in>set (concat (map spec_memo_piece (parts ct))). isspace ch
         then reply 500 (ErrorBody [Text (lit
           ''Agent failed to generate a comprehensive memo. Gemini's output was empty.'')])
         else reply 200 (DealMemo (concat (map spec_memo_piece (parts ct)))))"
    by (simp only: outcome sum.case)
next
  assume h: "candidates r = c # cs \<and> candidate_content c = Some ct
            \<and> parts ct = before @ bad # after
            \<and> (\<forall>p\<in>set before. readable_part p) \<and> \<not> readable_part bad"
  then have "response_parts r = before @ bad # after"
    by (simp add: response_parts_def)
  with h have "collect_memo [] (response_parts r)
                 = Inl (if part_text bad = IsNone then TypeError ''NoneType''
                        else AttributeError ''NoneType'' ''name'')"
    by (simp add: collect_memo_unreadable)
  then show "analyze_property generate_content req
      = reply 500 (ErrorBody [StrOfExn
          (if part_text bad = IsNone then TypeError ''NoneType''
           else AttributeError ''NoneType'' ''name'')])"
    by (simp only: outcome sum.case)
next
  assume "\<forall>p\<in>set ps. \<exists>t. part_text p = Has t"
  then show "concat (map spec_memo_piece ps) = spec_text_segments ps"
    by (rule spec_memo_pieces_text_only)
  qed
qed

text \<open>
  The theorem at a request with an address. A response whose only part is the text
  "Memo" gives 200 with that text; one whose only part is a blank gives 500 with the
  fixed message; the text "Memo" followed by a function call gives 200 with the text and
  the marker that names the tool; a part without text whose function call is \<open>None\<close>
  gives 500 with the message of the \<open>AttributeError\<close>.
\<close>

theorem analyze_property_memo_outcome_witness:
  "truthy (get_json_silent example_request)
   \<and> py_get (get_json_silent example_request) (lit ''address'')
        = Inr (JStr (lit ''1 Infinite Loop, Cupertino, CA 95014''))
   \<and> truthy (JStr (lit ''1 Infinite Loop, Cupertino, CA 95014''))
   \<and> analyze_property (model_returning (response_of_parts [text_part (lit ''Memo'')]))
        example_request = reply 200 (DealMemo (lit ''Memo''))
   \<and> analyze_property (model_returning (response_of_parts [text_part (lit '' '')]))
        example_request
        = reply 500 (ErrorBody [Text (lit
            ''Agent failed to generate a comprehensive memo. Gemini's output was empty.'')])
   \<and> analyze_property
        (model_returning (response_of_parts
           [text_part (lit ''Memo''), tool_call_part (lit ''validate_address'')]))
        example_request
        = reply 200 (DealMemo (lit ''Memo'' @ lit ''\<newline>\<newline>**[Warning: Agent attempted to call a tool in final response unexpectedly: validate_address]**\<newline>\<newline>''))
   \<and> analyze_property
        (model_returning (response_of_parts [text_part (lit ''Memo''), empty_call_part]))
        example_request
        = reply 500 (ErrorBody [StrOfExn (AttributeError ''NoneType'' ''name'')])"
proof -
  let ?addr = "JStr (lit ''1 Infinite Loop, Cupertino, CA 95014'')"
  let ?cand = "\<lambda>ps. \<lparr>candidate_content = Some \<lparr>parts = ps\<rparr>\<rparr>"
  have req: "truthy (get_json_silent example_request)"
    by (simp add: example_request_def)
  have addr: "py_get (get_json_silent example_request) (lit ''address'') = Inr ?addr"
    by (simp add: example_request_def)
  have tr: "truthy ?addr"
    by (simp add: lit_def)
  have model: "\<And>ps. model_returning (response_of_parts ps) ?addr = Inr (response_of_parts ps)"
    by (simp add: model_returning_def)
  have cands: "\<And>ps. candidates (response_of_parts ps) = ?cand ps # []"
    by (simp add: response_of_parts_def)
  note inst = analyze_property_memo_outcome [where req = example_request and a = ?addr, OF req addr tr]
  have a: "analyze_property (model_returning (response_of_parts [text_part (lit ''Memo'')]))
             example_request = reply 200 (DealMemo (lit ''Memo''))"
    using inst [where generate_content = "model_returning (response_of_parts [text_part (lit ''Memo'')])"
                  and r = "response_of_parts [text_part (lit ''Memo'')]"
                  and c = "?cand [text_part (lit ''Memo'')]" and cs = "[]"
                  and ct = "\<lparr>parts = [text_part (lit ''Memo'')]\<rparr>", OF model]
    by (simp add: cands readable_part_def spec_memo_piece_def text_part_def lit_def isspace_def)
  have b: "analyze_property (model_returning (response_of_parts [text_part (lit '' '')]))
             example_request
           = reply 500 (ErrorBody [Text (lit
               ''Agent failed to generate a comprehensive memo. Gemini's output was empty.'')])"
    using inst [where generate_content = "model_returning (response_of_parts [text_part (lit '' '')])"
                  and r = "response_of_parts [text_part (lit '' '')]"
                  and c = "?cand [text_part (lit '' '')]" and cs = "[]"
                  and ct = "\<lparr>parts = [text_part (lit '' '')]\<rparr>", OF model]
    by (simp add: cands readable_part_def spec_memo_piece_def text_part_def lit_def isspace_def)
  have c: "analyze_property
        (model_returning (response_of_parts
           [text_part (lit ''Memo''), tool_call_part (lit ''validate_address'')]))
        example_request
        = reply 200 (DealMemo (lit ''Memo'' @ lit ''\<newline>\<newline>**[Warning: Agent attempted to call a tool in final response unexpectedly: validate_address]**\<newline>\<newline>''))"
    using inst [where generate_content = "model_returning (response_of_parts
                      [text_part (lit ''Memo''), tool_call_part (lit ''validate_address'')])"
                  and r = "response_of_parts
                      [text_part (lit ''Memo''), tool_call_part (lit ''validate_address'')]"
                  and c = "?cand [text_part (lit ''Memo''), tool_call_part (lit ''validate_address'')]"
                  and cs = "[]"
                  and ct = "\<lparr>parts = [text_part (lit ''Memo''),
                                       tool_call_part (lit ''validate_address'')]\<rparr>", OF model]
    by (simp add: cands readable_part_def spec_memo_piece_def text_part_def tool_call_part_def
        lit_def isspace_def)
  have d: "analyze_property
        (model_returning (response_of_parts [text_part (lit ''Memo''), empty_call_part]))
        example_request
        = reply 500 (ErrorBody [StrOfExn (AttributeError ''NoneType'' ''name'')])"
    using inst [where generate_content = "model_returning (response_of_parts
                      [text_part (lit ''Memo''), empty_call_part])"
                  and r = "response_of_parts [text_part (lit ''Memo''), empty_call_part]"
                  and c = "?cand [text_part (lit ''Memo''), empty_call_part]"
                  and cs = "[]"
                  and ct = "\<lparr>parts = [text_part (lit ''Memo''), empty_call_part]\<rparr>"
                  and before = "[text_part (lit ''Memo'')]" and bad = empty_call_part
                  and after = "[]", OF model]
    by (simp add: cands readable_part_def text_part_def empty_call_part_def)
  from req addr tr a b c d show ?thesis by blast
qed

text \<open>
  The claim as it was written fails: a response whose only part is a function call has
  no text segment, so its concatenated text is empty, and yet the reply is 200, with the
  warning marker as memo.
\<close>

theorem tool_call_only_response_is_200:
  "spec_concatenated_text (response_of_parts [tool_call_part (lit ''validate_address'')]) = []
   \<and> analyze_property
        (model_returning (response_of_parts [tool_call_part (lit ''validate_address'')]))
        example_request
      = reply 200 (DealMemo (lit ''\<newline>\<newline>**[Warning: Agent attempted to call a tool in final response unexpectedly: validate_address]**\<newline>\<newline>''))
   \<and> status (analyze_property
        (model_returning (response_of_parts [tool_call_part (lit ''validate_address'')]))
        example_request) \<noteq> 500"
  by (simp add: spec_concatenated_text_def response_parts_def response_of_parts_def
      tool_call_part_def example_request_def model_returning_def analyze_property_def
      analyze_property_try_def try_bind_def generated_memo_def strip_def tool_call_warning_def
      lit_def isspace_def reply_def)

text \<open>
  Claim C9, as amended. For every POST body that parses to a JSON value that is not an
  object: if the value passes the truth test (a non-empty array, a non-empty string, a
  number other than zero, or \<open>true\<close>), the lookup \<open>data.get\<close> raises \<open>AttributeError\<close>
  inside the \<open>try\<close> block and the endpoint responds 500 with the message of that
  exception; if it fails the truth test (\<open>0\<close>, \<open>0.0\<close>, \<open>false\<close>, \<open>null\<close>, an empty string
  or an empty array), the guard \<open>if not data\<close> answers first and the endpoint responds
  400 with the message "Invalid JSON payload or empty request body.".
\<close>

theorem analyze_property_non_object_body:
  assumes "\<not> is_dict j"
  shows "analyze_property generate_content (Json j)
           = (if truthy j
              then reply 500 (ErrorBody [StrOfExn (AttributeError (type_name j) ''get'')])
              else reply 400 (ErrorBody [Text (lit
                     ''Invalid JSON payload or empty request body.'')]))
         \<and> analyze_property_try generate_content (Json j)
           = (if truthy j then Inl (AttributeError (type_name j) ''get'')
              else Inr (reply 400 (ErrorBody [Text (lit
                     ''Invalid JSON payload or empty request body.'')])))"
  using assms
  by (cases j)
    (simp_all add: analyze_property_def analyze_property_try_def try_bind_def)

text \<open>
  The theorem at the bodies \<open>[1]\<close>, \<open>"abc"\<close>, \<open>7\<close> and \<open>true\<close>, which get 500, and at
  the bodies \<open>0\<close>, \<open>false\<close> and \<open>[]\<close>, which get 400.
\<close>

theorem analyze_property_non_object_body_witness:
  "\<not> is_dict (JArr [JInt 1]) \<and> \<not> is_dict (JInt 0)
   \<and> analyze_property (model_raising (OtherException [])) (Json (JArr [JInt 1]))
       = reply 500 (ErrorBody [StrOfExn (AttributeError ''list'' ''get'')])
   \<and> analyze_property (model_raising (OtherException [])) (Json (JStr (lit ''abc'')))
       = reply 500 (ErrorBody [StrOfExn (AttributeError ''str'' ''get'')])
   \<and> analyze_property (model_raising (OtherException [])) (Json (JInt 7))
       = reply 500 (ErrorBody [StrOfExn (AttributeError ''int'' ''get'')])
   \<and> analyze_property (model_raising (OtherException [])) (Json (JBool True))
       = reply 500 (ErrorBody [StrOfExn (AttributeError ''bool'' ''get'')])
   \<and> analyze_property (model_raising (OtherException [])) (Json (JInt 0))
       = reply 400 (ErrorBody [Text (lit ''Invalid JSON payload or empty request body.'')])
   \<and> analyze_property (model_raising (OtherException [])) (Json (JBool False))
       = reply 400 (ErrorBody [Text (lit ''Invalid JSON payload or empty request body.'')])
   \<and> analyze_property (model_raising (OtherException [])) (Json (JArr []))
       = reply 400 (ErrorBody [Text (lit ''Invalid JSON payload or empty request body.'')])"
  using analyze_property_non_object_body
          [of "JArr [JInt 1]" "model_raising (OtherException [])"]
        analyze_property_non_object_body
          [of "JStr (lit ''abc'')" "model_raising (OtherException [])"]
        analyze_property_non_object_body
          [of "JInt 7" "model_raising (OtherException [])"]
        analyze_property_non_object_body
          [of "JBool True" "model_raising (OtherException [])"]
        analyze_property_non_object_body
          [of "JInt 0" "model_raising (OtherException [])"]
        analyze_property_non_object_body
          [of "JBool False" "model_raising (OtherException [])"]
        analyze_property_non_object_body
          [of "JArr []" "model_raising (OtherException [])"]
  by (simp add: lit_def)

text \<open>
  The claim as it was written fails: the body \<open>0\<close> is a number and not an object, and
  the reply to it is 400 with the invalid-JSON message, not 500.
\<close>

theorem zero_body_is_400:
  "\<not> is_dict (JInt 0)
   \<and> analyze_property (model_raising (OtherException [])) (Json (JInt 0))
       = reply 400 (ErrorBody [Text (lit ''Invalid JSON payload or empty request body.'')])
   \<and> status (analyze_property (model_raising (OtherException [])) (Json (JInt 0))) \<noteq> 500"
  by (simp add: analyze_property_def analyze_property_try_def reply_def)

text \<open>
  Claim C10. For every POST body that parses to a non-empty JSON object whose
  \<open>address\<close> key maps to a value that fails the truth test and is not a string (such as
  \<open>0\<close>, \<open>false\<close> or \<open>null\<close>), the endpoint responds 400 with the message
  "Missing 'address' in request payload.", which is also its reply to any non-empty
  object without the key.
\<close>

theorem analyze_property_falsy_address:
  assumes "kvs \<noteq> []"
    and "map_of kvs (lit ''address'') = Some v"
    and "\<not> truthy v"
    and "\<not> is_str v"
    and "kvs' \<noteq> []"
    and "map_of kvs' (lit ''address'') = None"
  shows "analyze_property generate_content (Json (JObj kvs))
           = reply 400 (ErrorBody [Text (lit ''Missing 'address' in request payload.'')])
         \<and> analyze_property generate_content (Json (JObj kvs))
           = analyze_property generate_content (Json (JObj kvs'))"
  using assms
  by (simp add: analyze_property_def analyze_property_try_def try_bind_def)

text \<open>The theorem at the bodies \<open>{"address": 0}\<close> and \<open>{"name": "x"}\<close>.\<close>

theorem analyze_property_falsy_address_witness:
  "[(lit ''address'', JInt 0)] \<noteq> []
   \<and> map_of [(lit ''address'', JInt 0)] (lit ''address'') = Some (JInt 0)
   \<and> \<not> truthy (JInt 0) \<and> \<not> is_str (JInt 0)
   \<and> map_of [(lit ''name'', JStr (lit ''x''))] (lit ''address'') = None
   \<and> analyze_property (model_raising (OtherException [])) (Json (JObj [(lit ''address'', JInt 0)]))
       = reply 400 (ErrorBody [Text (lit ''Missing 'address' in request payload.'')])
   \<and> analyze_property (model_raising (OtherException [])) (Json (JObj [(lit ''address'', JInt 0)]))
       = analyze_property (model_raising (OtherException []))
           (Json (JObj [(lit ''name'', JStr (lit ''x''))]))"
proof -
  have absent: "map_of [(lit ''name'', JStr (lit ''x''))] (lit ''address'') = None"
    by (simp add: lit_def)
  have present: "map_of [(lit ''address'', JInt 0)] (lit ''address'') = Some (JInt 0)"
    by simp
  have main:
    "analyze_property (model_raising (OtherException [])) (Json (JObj [(lit ''address'', JInt 0)]))
       = reply 400 (ErrorBody [Text (lit ''Missing 'address' in request payload.'')])
     \<and> analyze_property (model_raising (OtherException [])) (Json (JObj [(lit ''address'', JInt 0)]))
       = analyze_property (model_raising (OtherException []))
           (Json (JObj [(lit ''name'', JStr (lit ''x''))]))"
    by (rule analyze_property_falsy_address [where v = "JInt 0"]) (simp_all add: lit_def)
  have nonempty: "[(lit ''address'', JInt 0)] \<noteq> []" by simp
  have falsy: "\<not> truthy (JInt 0)" by simp
  have nostr: "\<not> is_str (JInt 0)" by simp
  from nonempty present falsy nostr absent main show ?thesis by blast
qed

section \<open>Properties of the warehouse tools\<close>

text \<open>
  Claim C5. For every zip code, \<open>get_demographics_by_zip\<close> returns the "no data" marker,
  which is not an error payload, when the zip code is not empty and the query succeeds
  with no row; and it returns an error payload exactly when the zip code is empty or
  the query raises.
\<close>

theorem get_demographics_by_zip_outcomes:
  "(z \<noteq> [] \<and> client_query (demographics_query z) = Inr [] \<longrightarrow>
      fst (get_demographics_by_zip client_query z)
        = DemographicsNoData (lit ''No data found for this zip code in public datasets.'')
      \<and> (\<forall>msg. fst (get_demographics_by_zip client_query z) \<noteq> DemographicsError msg))
   \<and> ((\<exists>msg. fst (get_demographics_by_zip client_query z) = DemographicsError msg)
        = (z = [] \<or> (\<exists>e. client_query (demographics_query z) = Inl e)))"
  by (auto simp: get_demographics_by_zip_def Let_def split: sum.splits list.splits)

text \<open>The theorem at the zip code \<open>00000\<close> and a warehouse without a matching row.\<close>

theorem get_demographics_by_zip_outcomes_witness:
  "lit ''00000'' \<noteq> []
   \<and> (client_returning [] :: nat bq_client) (demographics_query (lit ''00000'')) = Inr []
   \<and> fst (get_demographics_by_zip (client_returning [] :: nat bq_client) (lit ''00000''))
       = DemographicsNoData (lit ''No data found for this zip code in public datasets.'')"
proof -
  have z: "lit ''00000'' \<noteq> []"
    by (simp add: lit_def)
  have q: "(client_returning [] :: nat bq_client) (demographics_query (lit ''00000'')) = Inr []"
    by (simp add: client_returning_def)
  from get_demographics_by_zip_outcomes
         [where z = "lit ''00000''" and client_query = "client_returning [] :: nat bq_client"]
       z q
  have "fst (get_demographics_by_zip (client_returning [] :: nat bq_client) (lit ''00000''))
          = DemographicsNoData (lit ''No data found for this zip code in public datasets.'')"
    by blast
  with z q show ?thesis by blast
qed

text \<open>
  Claim C6. For every call of \<open>find_comparable_properties_in_bq\<close> in which the city is
  empty or the state is empty, whatever the other arguments and the warehouse, the
  function returns the error payload "City and State are required to find comparables."
  and the list of the queries it issued is empty.
\<close>

theorem find_comparable_properties_requires_city_and_state:
  assumes "c = [] \<or> s = []"
  shows "find_comparable_properties_in_bq project client_query c s property_type min_sqft
           max_price limit
         = (ComparablesError [Text (lit ''City and State are required to find comparables.'')],
            [])"
  using assms
  by (auto simp: find_comparable_properties_in_bq_def)

text \<open>The theorem at an empty city, with a warehouse that would return a row.\<close>

theorem find_comparable_properties_requires_city_and_state_witness:
  "(([]::pystr) = [] \<or> lit ''CA'' = [])
   \<and> find_comparable_properties_in_bq (bigquery_project_id None) (client_returning [0::nat])
        [] (lit ''CA'') None None None 5
      = (ComparablesError [Text (lit ''City and State are required to find comparables.'')], [])"
  using find_comparable_properties_requires_city_and_state
          [of "[]" "lit ''CA''" "bigquery_project_id None" "client_returning [0::nat]"
              None None None 5]
  by simp

text \<open>
  What the function does with the rows of the warehouse when city and state are given,
  no optional filter is set and the limit is 5: it issues one query, whose text ends in
  \<open>ORDER BY price DESC LIMIT 5\<close>, and hands the rows on as they came.
\<close>

lemma find_comparable_properties_passes_rows:
  assumes "c \<noteq> []" and "s \<noteq> []"
    and "client_query (comparables_query project c s None None None 5) = Inr rows"
  shows "find_comparable_properties_in_bq project client_query c s None None None 5
         = (if rows \<noteq> [] then ComparableProperties rows
            else ComparablesNoData (lit ''No comparable properties found for the given criteria.''),
            [comparables_query project c s None None None 5])"
    and "\<exists>front. comparables_query project c s None None None 5
           = front @ [Text (lit '' ORDER BY price DESC LIMIT ''), StrOf (JInt 5)]"
  using assms
  by (auto simp: find_comparable_properties_in_bq_def comparables_query_def Let_def)

section \<open>Properties of the geocoding tool\<close>

lemma geocode_except_is_error: "\<exists>msg. geocode_except address e = GeoError msg"
  by (cases e) simp_all

lemma geocode_except_not_result: "geocode_except address e \<noteq> GeoResult g"
  using geocode_except_is_error [of address e] by auto

text \<open>
  Claim C3. For every credential, transport and address, \<open>get_geocode_and_place_id\<close>
  returns a payload and raises nothing. In each failure mode the payload is an error
  payload: the credential unset or empty; the request timed out; the transport failed,
  or the reply had an error status; any other exception in the \<open>try\<close> block; and a
  decoded reply whose status is not \<open>OK\<close> or whose result list is empty.
\<close>

theorem get_geocode_and_place_id_never_raises:
  "(\<exists>payload. get_geocode_and_place_id k requests_get address = Inr payload)
   \<and> get_geocode_and_place_id None requests_get address
       = Inr (GeoError [Text (lit ''MAPS_API_KEY environment variable not set.'')])
   \<and> get_geocode_and_place_id (Some []) requests_get address
       = Inr (GeoError [Text (lit ''MAPS_API_KEY environment variable not set.'')])
   \<and> (key \<noteq> [] \<and> requests_get (geocode_url address key) = Inl (Timeout m) \<longrightarrow>
        get_geocode_and_place_id (Some key) requests_get address
          = Inr (GeoError [Text (lit ''Geocoding API request timed out for address: ''),
                           Text address, Text (lit ''.'')]))
   \<and> (key \<noteq> []
        \<and> (requests_get (geocode_url address key) = Inl (RequestException m)
            \<or> (requests_get (geocode_url address key) = Inr response
                \<and> raise_for_status response = Some (RequestException m))) \<longrightarrow>
        get_geocode_and_place_id (Some key) requests_get address
          = Inr (GeoError [Text (lit ''Geocoding API request failed: ''),
                           StrOfExn (RequestException m), Text (lit ''.'')]))
   \<and> (key \<noteq> [] \<and> geocode_try requests_get (geocode_url address key) address = Inl e
        \<and> (\<forall>t. e \<noteq> Timeout t) \<and> (\<forall>t. e \<noteq> RequestException t) \<longrightarrow>
        get_geocode_and_place_id (Some key) requests_get address
          = Inr (GeoError [Text (lit ''An unexpected error occurred during geocoding: ''),
                           StrOfExn e, Text (lit ''.'')]))
   \<and> (key \<noteq> [] \<and> requests_get (geocode_url address key) = Inr response
        \<and> raise_for_status response = None \<and> json_result response = Inr data
        \<and> subscript_key data (lit ''status'') = Inr st
        \<and> (st \<noteq> JStr (lit ''OK'') \<or> subscript_key data (lit ''results'') = Inr (JArr [])) \<longrightarrow>
        get_geocode_and_place_id (Some key) requests_get address
          = Inr (GeoError [Text (lit ''Could not geocode address: ''), Text address,
                           Text (lit ''. Status: ''), StrOf st, Text (lit ''.'')]))"
proof (intro conjI impI)
  show "\<exists>payload. get_geocode_and_place_id k requests_get address = Inr payload"
    by (simp add: get_geocode_and_place_id_def split: option.splits sum.splits)
next
  show "get_geocode_and_place_id None requests_get address
       = Inr (GeoError [Text (lit ''MAPS_API_KEY environment variable not set.'')])"
    by (simp add: get_geocode_and_place_id_def)
next
  show "get_geocode_and_place_id (Some []) requests_get address
       = Inr (GeoError [Text (lit ''MAPS_API_KEY environment variable not set.'')])"
    by (simp add: get_geocode_and_place_id_def)
next
  assume "key \<noteq> [] \<and> requests_get (geocode_url address key) = Inl (Timeout m)"
  then show "get_geocode_and_place_id (Some key) requests_get address
          = Inr (GeoError [Text (lit ''Geocoding API request timed out for address: ''),
                           Text address, Text (lit ''.'')])"
    by (simp add: get_geocode_and_place_id_def geocode_try_def try_bind_def)
next
  assume "key \<noteq> []
        \<and> (requests_get (geocode_url address key) = Inl (RequestException m)
            \<or> (requests_get (geocode_url address key) = Inr response
                \<and> raise_for_status response = Some (RequestException m)))"
  then show "get_geocode_and_place_id (Some key) requests_get address
          = Inr (GeoError [Text (lit ''Geocoding API request failed: ''),
                           StrOfExn (RequestException m), Text (lit ''.'')])"
    by (auto simp: get_geocode_and_place_id_def geocode_try_def try_bind_def)
next
  assume a: "key \<noteq> [] \<and> geocode_try requests_get (geocode_url address key) address = Inl e
        \<and> (\<forall>t. e \<noteq> Timeout t) \<and> (\<forall>t. e \<noteq> RequestException t)"
  then have "geocode_except address e
      = GeoError [Text (lit ''An unexpected error occurred during geocoding: ''),
                           StrOfExn e, Text (lit ''.'')]"
    by (cases e) simp_all
  with a show "get_geocode_and_place_id (Some key) requests_get address
          = Inr (GeoError [Text (lit ''An unexpected error occurred during geocoding: ''),
                           StrOfExn e, Text (lit ''.'')])"
    by (simp add: get_geocode_and_place_id_def)
next
  assume a: "key \<noteq> [] \<and> requests_get (geocode_url address key) = Inr response
        \<and> raise_for_status response = None \<and> json_result response = Inr data
        \<and> subscript_key data (lit ''status'') = Inr st
        \<and> (st \<noteq> JStr (lit ''OK'') \<or> subscript_key data (lit ''results'') = Inr (JArr []))"
  then obtain kvs where d: "data = JObj kvs"
    by (cases data) auto
  with a have "py_get data (lit ''status'') = Inr st"
    by (auto split: option.splits)
  with a have "geocode_try requests_get (geocode_url address key) address
      = Inr (GeoError [Text (lit ''Could not geocode address: ''), Text address,
                           Text (lit ''. Status: ''), StrOf st, Text (lit ''.'')])"
    by (auto simp: geocode_try_def try_bind_def)
  with a show "get_geocode_and_place_id (Some key) requests_get address
          = Inr (GeoError [Text (lit ''Could not geocode address: ''), Text address,
                           Text (lit ''. Status: ''), StrOf st, Text (lit ''.'')])"
    by (simp add: get_geocode_and_place_id_def)
qed

text \<open>
  The theorem at a transport that times out, at one that fails, at a reply with the
  status \<open>ZERO_RESULTS\<close>, and at a reply that is not JSON.
\<close>

theorem get_geocode_and_place_id_never_raises_witness:
  "get_geocode_and_place_id (Some (lit ''k'')) (requests_get_raising (Timeout (lit ''timed out'')))
       (lit ''1 Main St'')
     = Inr (GeoError [Text (lit ''Geocoding API request timed out for address: ''),
                      Text (lit ''1 Main St''), Text (lit ''.'')])
   \<and> get_geocode_and_place_id (Some (lit ''k''))
       (requests_get_raising (RequestException (lit ''refused''))) (lit ''1 Main St'')
     = Inr (GeoError [Text (lit ''Geocoding API request failed: ''),
                      StrOfExn (RequestException (lit ''refused'')), Text (lit ''.'')])
   \<and> get_geocode_and_place_id (Some (lit ''k''))
       (requests_get_returning (reply_with_json
          (JObj [(lit ''status'', JStr (lit ''ZERO_RESULTS'')), (lit ''results'', JArr [])])))
       (lit ''1 Main St'')
     = Inr (GeoError [Text (lit ''Could not geocode address: ''), Text (lit ''1 Main St''),
                      Text (lit ''. Status: ''), StrOf (JStr (lit ''ZERO_RESULTS'')),
                      Text (lit ''.'')])
   \<and> get_geocode_and_place_id (Some (lit ''k''))
       (requests_get_returning
          \<lparr>raise_for_status = None, json_result = Inl (OtherException (lit ''not JSON''))\<rparr>)
       (lit ''1 Main St'')
     = Inr (GeoError [Text (lit ''An unexpected error occurred during geocoding: ''),
                      StrOfExn (OtherException (lit ''not JSON'')), Text (lit ''.'')])"
proof -
  have key: "lit ''k'' \<noteq> []"
    by (simp add: lit_def)
  have status: "subscript_key
       (JObj [(lit ''status'', JStr (lit ''ZERO_RESULTS'')), (lit ''results'', JArr [])])
       (lit ''status'') = Inr (JStr (lit ''ZERO_RESULTS''))"
    by simp
  have not_ok: "JStr (lit ''ZERO_RESULTS'') \<noteq> JStr (lit ''OK'')"
    by (simp add: lit_def)
  have failed: "geocode_try
       (requests_get_returning
          \<lparr>raise_for_status = None, json_result = Inl (OtherException (lit ''not JSON''))\<rparr>)
       (geocode_url (lit ''1 Main St'') (lit ''k'')) (lit ''1 Main St'')
     = Inl (OtherException (lit ''not JSON''))"
    by (simp add: geocode_try_def requests_get_returning_def try_bind_def)
  note timeout = get_geocode_and_place_id_never_raises
      [where key = "lit ''k''" and address = "lit ''1 Main St''"
         and requests_get = "requests_get_raising (Timeout (lit ''timed out''))"
         and m = "lit ''timed out''"]
  note refused = get_geocode_and_place_id_never_raises
      [where key = "lit ''k''" and address = "lit ''1 Main St''"
         and requests_get = "requests_get_raising (RequestException (lit ''refused''))"
         and m = "lit ''refused''"]
  note zero = get_geocode_and_place_id_never_raises
      [where key = "lit ''k''" and address = "lit ''1 Main St''"
         and requests_get = "requests_get_returning (reply_with_json
          (JObj [(lit ''status'', JStr (lit ''ZERO_RESULTS'')), (lit ''results'', JArr [])]))"
         and response = "reply_with_json
          (JObj [(lit ''status'', JStr (lit ''ZERO_RESULTS'')), (lit ''results'', JArr [])])"
         and data = "JObj [(lit ''status'', JStr (lit ''ZERO_RESULTS'')), (lit ''results'', JArr [])]"
         and st = "JStr (lit ''ZERO_RESULTS'')"]
  note other = get_geocode_and_place_id_never_raises
      [where key = "lit ''k''" and address = "lit ''1 Main St''"
         and requests_get = "requests_get_returning
          \<lparr>raise_for_status = None, json_result = Inl (OtherException (lit ''not JSON''))\<rparr>"
         and e = "OtherException (lit ''not JSON'')"]
  have a: "get_geocode_and_place_id (Some (lit ''k''))
       (requests_get_raising (Timeout (lit ''timed out''))) (lit ''1 Main St'')
     = Inr (GeoError [Text (lit ''Geocoding API request timed out for address: ''),
                      Text (lit ''1 Main St''), Text (lit ''.'')])"
    using timeout key by (simp add: requests_get_raising_def)
  have b: "get_geocode_and_place_id (Some (lit ''k''))
       (requests_get_raising (RequestException (lit ''refused''))) (lit ''1 Main St'')
     = Inr (GeoError [Text (lit ''Geocoding API request failed: ''),
                      StrOfExn (RequestException (lit ''refused'')), Text (lit ''.'')])"
    using refused key by (simp add: requests_get_raising_def)
  have c: "get_geocode_and_place_id (Some (lit ''k''))
       (requests_get_returning (reply_with_json
          (JObj [(lit ''status'', JStr (lit ''ZERO_RESULTS'')), (lit ''results'', JArr [])])))
       (lit ''1 Main St'')
     = Inr (GeoError [Text (lit ''Could not geocode address: ''), Text (lit ''1 Main St''),
                      Text (lit ''. Status: ''), StrOf (JStr (lit ''ZERO_RESULTS'')),
                      Text (lit ''.'')])"
    using zero key status not_ok
    by (simp add: requests_get_returning_def reply_with_json_def)
  have d: "get_geocode_and_place_id (Some (lit ''k''))
       (requests_get_returning
          \<lparr>raise_for_status = None, json_result = Inl (OtherException (lit ''not JSON''))\<rparr>)
       (lit ''1 Main St'')
     = Inr (GeoError [Text (lit ''An unexpected error occurred during geocoding: ''),
                      StrOfExn (OtherException (lit ''not JSON'')), Text (lit ''.'')])"
    using other key failed by simp
  from a b c d show ?thesis by blast
qed

lemma component_step_city:
  assumes "component_step acc q = Inr acc'"
  shows "(has_type (lit ''locality'') q \<longrightarrow>
            subscript_key q (lit ''long_name'') = Inr (fst acc'))
       \<and> (\<not> has_type (lit ''locality'') q \<longrightarrow> fst acc' = fst acc)"
  using assms
  by (auto simp: component_step_def has_type_def try_bind_def
      split: sum.splits if_splits prod.splits)

lemma component_step_state:
  assumes "component_step acc q = Inr acc'"
  shows "(has_type (lit ''administrative_area_level_1'') q \<longrightarrow>
            subscript_key q (lit ''short_name'') = Inr (fst (snd acc')))
       \<and> (\<not> has_type (lit ''administrative_area_level_1'') q \<longrightarrow>
            fst (snd acc') = fst (snd acc))"
  using assms
  by (auto simp: component_step_def has_type_def try_bind_def
      split: sum.splits if_splits prod.splits)

lemma component_step_zip:
  assumes "component_step acc q = Inr acc'"
  shows "(has_type (lit ''postal_code'') q \<longrightarrow>
            subscript_key q (lit ''long_name'') = Inr (snd (snd acc')))
       \<and> (\<not> has_type (lit ''postal_code'') q \<longrightarrow> snd (snd acc') = snd (snd acc))"
  using assms
  by (auto simp: component_step_def has_type_def try_bind_def
      split: sum.splits if_splits prod.splits)

lemma scan_components_append:
  "scan_components acc (xs @ ys)
     = try_bind (scan_components acc xs) (\<lambda>a. scan_components a ys)"
  by (induction xs arbitrary: acc) (auto simp: try_bind_def split: sum.splits)

lemma scan_components_city_kept:
  "scan_components acc cs = Inr acc' \<Longrightarrow> \<forall>q\<in>set cs. \<not> has_type (lit ''locality'') q \<Longrightarrow>
   fst acc' = fst acc"
proof (induction cs arbitrary: acc)
  case Nil
  then show ?case by simp
next
  case (Cons q cs)
  from Cons.prems(1) obtain mid where
    step: "component_step acc q = Inr mid" and rest: "scan_components mid cs = Inr acc'"
    by (auto simp: try_bind_def split: sum.splits)
  from Cons.IH [OF rest] Cons.prems(2) have "fst acc' = fst mid" by simp
  moreover from component_step_city [OF step] Cons.prems(2) have "fst mid = fst acc" by simp
  ultimately show ?case by simp
qed

lemma scan_components_state_kept:
  "scan_components acc cs = Inr acc' \<Longrightarrow>
   \<forall>q\<in>set cs. \<not> has_type (lit ''administrative_area_level_1'') q \<Longrightarrow>
   fst (snd acc') = fst (snd acc)"
proof (induction cs arbitrary: acc)
  case Nil
  then show ?case by simp
next
  case (Cons q cs)
  from Cons.prems(1) obtain mid where
    step: "component_step acc q = Inr mid" and rest: "scan_components mid cs = Inr acc'"
    by (auto simp: try_bind_def split: sum.splits)
  from Cons.IH [OF rest] Cons.prems(2) have "fst (snd acc') = fst (snd mid)" by simp
  moreover from component_step_state [OF step] Cons.prems(2)
  have "fst (snd mid) = fst (snd acc)" by simp
  ultimately show ?case by simp
qed

lemma scan_components_zip_kept:
  "scan_components acc cs = Inr acc' \<Longrightarrow> \<forall>q\<in>set cs. \<not> has_type (lit ''postal_code'') q \<Longrightarrow>
   snd (snd acc') = snd (snd acc)"
proof (induction cs arbitrary: acc)
  case Nil
  then show ?case by simp
next
  case (Cons q cs)
  from Cons.prems(1) obtain mid where
    step: "component_step acc q = Inr mid" and rest: "scan_components mid cs = Inr acc'"
    by (auto simp: try_bind_def split: sum.splits)
  from Cons.IH [OF rest] Cons.prems(2) have "snd (snd acc') = snd (snd mid)" by simp
  moreover from component_step_zip [OF step] Cons.prems(2)
  have "snd (snd mid) = snd (snd acc)" by simp
  ultimately show ?case by simp
qed

lemma scan_components_split:
  assumes "scan_components acc (before @ component # after) = Inr acc'"
  obtains a b where "scan_components acc before = Inr a" "component_step a component = Inr b"
    "scan_components b after = Inr acc'"
  using assms
  by (auto simp: scan_components_append try_bind_def split: sum.splits)

lemma geocode_try_scan:
  assumes "geocode_try requests_get url address = Inr (GeoResult g)"
    and "requests_get url = Inr response"
    and "json_result response = Inr data"
    and "address_components data = Inr cs"
  shows "scan_components (JNull, JNull, JNull) cs = Inr (city g, state g, zip_code g)"
  using assms
  by (auto simp: geocode_try_def address_components_def try_bind_def
      split: sum.splits if_splits option.splits)

lemma example_components_value:
  "address_components example_geocoder_data = Inr example_components"
  by (simp add: address_components_def example_geocoder_data_def first_result_def try_bind_def
      lit_def)

lemma example_run:
  "get_geocode_and_place_id (Some (lit ''k'')) (requests_get_returning
       (reply_with_json example_geocoder_data)) (lit ''1 Infinite Loop, Cupertino'')
     = Inr (GeoResult example_geo_result)"
  by (simp add: get_geocode_and_place_id_def geocode_try_def requests_get_returning_def
      reply_with_json_def example_geocoder_data_def example_components_def example_component_def
      example_geo_result_def first_result_def component_step_def try_bind_def lit_def)

text \<open>
  Claim C8. When \<open>get_geocode_and_place_id\<close> returns a result, the last component in
  list order that carries a type tag determines the value extracted for it, whatever
  components with the same tag come before: \<open>city\<close> is the \<open>long_name\<close> of the last
  component tagged \<open>locality\<close>, \<open>state\<close> is the \<open>short_name\<close> of the last component
  tagged \<open>administrative_area_level_1\<close>, and \<open>zip_code\<close> is the \<open>long_name\<close> of the last
  component tagged \<open>postal_code\<close>.
\<close>

theorem get_geocode_and_place_id_last_component_wins:
  assumes "get_geocode_and_place_id (Some key) requests_get address = Inr (GeoResult g)"
    and "requests_get (geocode_url address key) = Inr response"
    and "json_result response = Inr data"
    and "address_components data = Inr (before @ component # after)"
  shows "(has_type (lit ''locality'') component
            \<and> (\<forall>q\<in>set after. \<not> has_type (lit ''locality'') q)
          \<longrightarrow> subscript_key component (lit ''long_name'') = Inr (city g))
       \<and> (has_type (lit ''administrative_area_level_1'') component
            \<and> (\<forall>q\<in>set after. \<not> has_type (lit ''administrative_area_level_1'') q)
          \<longrightarrow> subscript_key component (lit ''short_name'') = Inr (state g))
       \<and> (has_type (lit ''postal_code'') component
            \<and> (\<forall>q\<in>set after. \<not> has_type (lit ''postal_code'') q)
          \<longrightarrow> subscript_key component (lit ''long_name'') = Inr (zip_code g))"
proof -
  from assms(1)
  have "geocode_try requests_get (geocode_url address key) address = Inr (GeoResult g)"
    by (auto simp: get_geocode_and_place_id_def geocode_except_not_result
        split: if_splits sum.splits)
  from geocode_try_scan [OF this assms(2) assms(3) assms(4)]
  have "scan_components (JNull, JNull, JNull) (before @ component # after)
          = Inr (city g, state g, zip_code g)" .
  then obtain a b where
    step: "component_step a component = Inr b" and
    rest: "scan_components b after = Inr (city g, state g, zip_code g)"
    by (rule scan_components_split)
  show ?thesis
    using component_step_city [OF step] component_step_state [OF step]
      component_step_zip [OF step] scan_components_city_kept [OF rest]
      scan_components_state_kept [OF rest] scan_components_zip_kept [OF rest]
    by simp
qed

text \<open>
  The theorem at a reply with two components tagged \<open>locality\<close>, Springfield and then
  Cupertino: the city is Cupertino. The state comes from the \<open>short_name\<close> of the
  component tagged \<open>administrative_area_level_1\<close>, whose \<open>long_name\<close> is California.
\<close>

theorem get_geocode_and_place_id_last_component_wins_witness:
  "get_geocode_and_place_id (Some (lit ''k'')) (requests_get_returning
       (reply_with_json example_geocoder_data)) (lit ''1 Infinite Loop, Cupertino'')
     = Inr (GeoResult example_geo_result)
   \<and> has_type (lit ''locality'')
       (example_component ''Springfield'' ''Springfield'' [''locality'', ''political''])
   \<and> has_type (lit ''locality'')
       (example_component ''Cupertino'' ''Cupertino'' [''locality'', ''political''])
   \<and> subscript_key (example_component ''Cupertino'' ''Cupertino'' [''locality'', ''political''])
         (lit ''long_name'') = Inr (city example_geo_result)
   \<and> city example_geo_result = JStr (lit ''Cupertino'')
   \<and> subscript_key
         (example_component ''California'' ''CA'' [''administrative_area_level_1'', ''political''])
         (lit ''short_name'') = Inr (state example_geo_result)
   \<and> state example_geo_result = JStr (lit ''CA'')"
proof -
  let ?first = "example_component ''Springfield'' ''Springfield'' [''locality'', ''political'']"
  let ?second = "example_component ''Cupertino'' ''Cupertino'' [''locality'', ''political'']"
  let ?third =
    "example_component ''California'' ''CA'' [''administrative_area_level_1'', ''political'']"
  let ?fourth = "example_component ''95014'' ''95014'' [''postal_code'']"
  have get: "requests_get_returning (reply_with_json example_geocoder_data)
               (geocode_url (lit ''1 Infinite Loop, Cupertino'') (lit ''k''))
             = Inr (reply_with_json example_geocoder_data)"
    by (simp add: requests_get_returning_def)
  have body: "json_result (reply_with_json example_geocoder_data) = Inr example_geocoder_data"
    by (simp add: reply_with_json_def)
  have comps2: "address_components example_geocoder_data
                  = Inr ([?first] @ ?second # [?third, ?fourth])"
    by (simp add: example_components_value example_components_def)
  have comps3: "address_components example_geocoder_data
                  = Inr ([?first, ?second] @ ?third # [?fourth])"
    by (simp add: example_components_value example_components_def)
  have first: "has_type (lit ''locality'') ?first"
    by (simp add: has_type_def example_component_def try_bind_def lit_def)
  have second: "has_type (lit ''locality'') ?second"
    by (simp add: has_type_def example_component_def try_bind_def lit_def)
  have later2: "\<forall>q\<in>set [?third, ?fourth]. \<not> has_type (lit ''locality'') q"
    by (simp add: has_type_def example_component_def try_bind_def lit_def)
  have third: "has_type (lit ''administrative_area_level_1'') ?third"
    by (simp add: has_type_def example_component_def try_bind_def lit_def)
  have later3: "\<forall>q\<in>set [?fourth]. \<not> has_type (lit ''administrative_area_level_1'') q"
    by (simp add: has_type_def example_component_def try_bind_def lit_def)
  from get_geocode_and_place_id_last_component_wins [OF example_run get body comps2]
    second later2
  have c: "subscript_key ?second (lit ''long_name'') = Inr (city example_geo_result)"
    by blast
  from get_geocode_and_place_id_last_component_wins [OF example_run get body comps3]
    third later3
  have s: "subscript_key ?third (lit ''short_name'') = Inr (state example_geo_result)"
    by blast
  have cv: "city example_geo_result = JStr (lit ''Cupertino'')"
    by (simp add: example_geo_result_def)
  have sv: "state example_geo_result = JStr (lit ''CA'')"
    by (simp add: example_geo_result_def)
  from example_run first second c cv s sv show ?thesis by blast
qed

end
